theory Spec2Isabelle
  imports Complex_Main "HOL-Library.AList" "HOL-Library.Sublist"
begin

section \<open>Values exchanged with the outside world\<close>

text \<open>
  Request bodies, stored entries and response bodies of \<^verbatim>\<open>server.ts\<close> are JSON values.
  A JavaScript object is an association list in property order; reading a property
  is \<open>map_of\<close>, writing one is \<open>AList.update\<close> (overwrite in place, or append).
  Numbers are rationals: the schemas only ask whether a number is an integer and
  how it compares with a bound.
\<close>

datatype json =
    JNull
  | JBool bool
  | JNum rat
  | JStr string
  | JArr "json list"
  | JObj "(string \<times> json) list"

text \<open>
  What the JavaScript runtime and the libraries supply and the source only calls:
  the pattern behind zod's \<^verbatim>\<open>z.string().datetime()\<close>, \<^verbatim>\<open>JSON.stringify\<close>,
  \<^verbatim>\<open>JSON.parse\<close> (\<open>None\<close> when it throws a SyntaxError) and \<^verbatim>\<open>jwt.verify\<close>
  (\<open>None\<close> when it throws, otherwise the decoded \<^verbatim>\<open>pennkey\<close>).
\<close>

record runtime =
  isDatetime :: "string \<Rightarrow> bool"
  JSON_stringify :: "json \<Rightarrow> string"
  JSON_parse :: "string \<Rightarrow> json option"
  jwt_verify :: "string \<Rightarrow> string option"

section \<open>Zod schemas\<close>

text \<open>
  The three schemas are \<^verbatim>\<open>z.object\<close> shapes. A shape lists its keys in declaration
  order, each with a string or number type and its chain of checks, possibly wrapped
  in \<^verbatim>\<open>.optional()\<close>. An issue of a \<^verbatim>\<open>ZodError\<close> keeps zod's issue code and the path
  of the offending field.
\<close>

datatype string_check = SDatetime | SMin nat

datatype number_check = NInt | NMin rat | NMax rat | NPositive

datatype zod_type =
    ZString "string_check list"
  | ZNumber "number_check list"
  | ZOptional zod_type

type_synonym zod_shape = "(string \<times> zod_type) list"

record zod_issue =
  issue_code :: string
  issue_path :: "string list"

fun check_string :: "runtime \<Rightarrow> string_check \<Rightarrow> string \<Rightarrow> string list" where
  "check_string rt SDatetime s = (if isDatetime rt s then [] else [''invalid_string''])"
| "check_string rt (SMin n) s = (if n \<le> length s then [] else [''too_small''])"

fun check_number :: "number_check \<Rightarrow> rat \<Rightarrow> string list" where
  "check_number NInt x = (if of_int \<lfloor>x\<rfloor> = x then [] else [''invalid_type''])"
| "check_number (NMin b) x = (if b \<le> x then [] else [''too_small''])"
| "check_number (NMax b) x = (if x \<le> b then [] else [''too_big''])"
| "check_number NPositive x = (if 0 < x then [] else [''too_small''])"

text \<open>
  Parsing one field. The argument is the property as read from the input object,
  \<open>None\<close> for \<^verbatim>\<open>undefined\<close>. A value of the wrong type gives one
  \<^verbatim>\<open>invalid_type\<close> issue and its checks do not run; otherwise every check runs and
  each failing one adds its issue.
\<close>

fun parse_type :: "runtime \<Rightarrow> zod_type \<Rightarrow> json option \<Rightarrow> string list" where
  "parse_type rt (ZString cs) v =
     (case v of
        Some (JStr s) \<Rightarrow> concat (map (\<lambda>c. check_string rt c s) cs)
      | _ \<Rightarrow> [''invalid_type''])"
| "parse_type rt (ZNumber cs) v =
     (case v of
        Some (JNum x) \<Rightarrow> concat (map (\<lambda>c. check_number c x) cs)
      | _ \<Rightarrow> [''invalid_type''])"
| "parse_type rt (ZOptional t) v =
     (case v of None \<Rightarrow> [] | Some _ \<Rightarrow> parse_type rt t v)"

definition field_issues :: "runtime \<Rightarrow> (string \<times> json) list \<Rightarrow> string \<times> zod_type \<Rightarrow> zod_issue list" where
  "field_issues rt data kt =
     map (\<lambda>c. \<lparr>issue_code = c, issue_path = [fst kt]\<rparr>) (parse_type rt (snd kt) (map_of data (fst kt)))"

definition field_output :: "(string \<times> json) list \<Rightarrow> string \<times> zod_type \<Rightarrow> (string \<times> json) list" where
  "field_output data kt = (case map_of data (fst kt) of None \<Rightarrow> [] | Some v \<Rightarrow> [(fst kt, v)])"

text \<open>
  \<^verbatim>\<open>schema.parse(input)\<close> for an object schema in zod's default mode: an input that
  is not an object is refused; every key of the shape is parsed, in shape order;
  keys of the input that the shape does not name are neither reported nor kept
  (the schemas of the source never call \<^verbatim>\<open>.strict()\<close>); the result holds the
  shape's keys that the input has. \<open>Inl\<close> is the thrown \<^verbatim>\<open>ZodError\<close> with its issues.
\<close>

definition zod_parse :: "runtime \<Rightarrow> zod_shape \<Rightarrow> json \<Rightarrow> zod_issue list + (string \<times> json) list" where
  "zod_parse rt shape input =
     (case input of
        JObj data \<Rightarrow>
          (let issues = concat (map (field_issues rt data) shape)
           in if issues = [] then Inr (concat (map (field_output data) shape)) else Inl issues)
      | _ \<Rightarrow> Inl [\<lparr>issue_code = ''invalid_type'', issue_path = []\<rparr>])"

definition partial :: "zod_shape \<Rightarrow> zod_shape" where
  "partial shape = map (\<lambda>kt. (fst kt, ZOptional (snd kt))) shape"

definition extend_schema :: "zod_shape \<Rightarrow> zod_shape \<Rightarrow> zod_shape" where
  "extend_schema shape augmentation = fold (\<lambda>kt. AList.update (fst kt) (snd kt)) augmentation shape"

definition InsertBoxEntrySchema :: zod_shape where
  "InsertBoxEntrySchema =
     [(''createdAt'', ZString [SDatetime]),
      (''level'', ZNumber [NInt, NMin 1, NMax 100]),
      (''location'', ZString [SMin 1]),
      (''notes'', ZOptional (ZString [])),
      (''pokemonId'', ZNumber [NInt, NPositive])]"

definition UpdateBoxEntrySchema :: zod_shape where
  "UpdateBoxEntrySchema =
     partial
       [(''createdAt'', ZOptional (ZString [SDatetime])),
        (''level'', ZOptional (ZNumber [NInt, NMin 1, NMax 100])),
        (''location'', ZOptional (ZString [SMin 1])),
        (''notes'', ZOptional (ZString [])),
        (''pokemonId'', ZOptional (ZNumber [NInt, NPositive]))]"

definition BoxEntrySchema :: zod_shape where
  "BoxEntrySchema = extend_schema InsertBoxEntrySchema [(''id'', ZString [])]"

section \<open>The Redis store\<close>

text \<open>
  The store maps string keys to string values. It is kept as an association list
  so that \<^verbatim>\<open>KEYS\<close> can enumerate it; the order of the list stands for the
  enumeration order of the server, which Redis leaves unspecified. The handlers
  assume a connected store: no command of the model fails.
\<close>

type_synonym redis = "(string \<times> string) list"

definition redis_get :: "redis \<Rightarrow> string \<Rightarrow> string option" where
  "redis_get db k = map_of db k"

definition redis_set :: "redis \<Rightarrow> string \<Rightarrow> string \<Rightarrow> redis" where
  "redis_set db k v = AList.update k v db"

definition redis_exists :: "redis \<Rightarrow> string \<Rightarrow> bool" where
  "redis_exists db k = (map_of db k \<noteq> None)"

definition redis_del :: "redis \<Rightarrow> string list \<Rightarrow> redis" where
  "redis_del db ks = fold AList.delete ks db"

text \<open>
  \<^verbatim>\<open>KEYS pattern\<close> matches glob-style: \<^verbatim>\<open>*\<close> stands for any run of characters,
  \<^verbatim>\<open>?\<close> for one character, \<^verbatim>\<open>[...]\<close> for one character of a class (with
  \<^verbatim>\<open>a-z\<close> ranges, \<^verbatim>\<open>^\<close> for the complement and an unclosed class running to the
  end of the pattern), and a backslash takes the next character literally.
  \<open>match_class\<close> reads a class after its opening bracket and returns whether the
  character is in it, and the pattern after the closing bracket.
\<close>

function match_class :: "string \<Rightarrow> char \<Rightarrow> bool \<times> string" where
  "match_class [] c = (False, [])"
| "match_class (p # ps) c =
     (if p = CHR 0x5C \<and> ps \<noteq> [] then
        (hd ps = c \<or> fst (match_class (tl ps) c), snd (match_class (tl ps) c))
      else if p = CHR '']'' then (False, ps)
      else if 2 \<le> length ps \<and> hd ps = CHR ''-'' then
        (let lo = min (of_char p) (of_char (ps ! 1)) :: nat;
             hi = max (of_char p) (of_char (ps ! 1)) :: nat
         in ((lo \<le> of_char c \<and> of_char c \<le> hi) \<or> fst (match_class (drop 2 ps) c),
             snd (match_class (drop 2 ps) c)))
      else (p = c \<or> fst (match_class ps c), snd (match_class ps c)))"
  by pat_completeness auto
termination
  by (relation "measure (\<lambda>(ps, c). length ps)") auto

lemma match_class_rest: "length (snd (match_class ps c)) \<le> length ps"
proof (induction ps c rule: match_class.induct)
  case (1 c)
  show ?case by simp
next
  case (2 p ps c)
  show ?case
  proof (cases "p = CHR 0x5C \<and> ps \<noteq> []")
    case True
    with "2.IH" have "length (snd (match_class (tl ps) c)) \<le> length (tl ps)" by blast
    with True show ?thesis by simp
  next
    case esc: False
    show ?thesis
    proof (cases "p = CHR '']''")
      case True
      with esc show ?thesis by auto
    next
      case br: False
      show ?thesis
      proof (cases "2 \<le> length ps \<and> hd ps = CHR ''-''")
        case True
        with "2.IH" esc br have "length (snd (match_class (drop 2 ps) c)) \<le> length (drop 2 ps)"
          by blast
        with True esc br show ?thesis by (auto simp: Let_def)
      next
        case False
        with "2.IH" esc br have "length (snd (match_class ps c)) \<le> length ps" by blast
        with False esc br show ?thesis by auto
      qed
    qed
  qed
qed

function stringmatch :: "string \<Rightarrow> string \<Rightarrow> bool" where
  "stringmatch [] s = (s = [])"
| "stringmatch (p # ps) [] = (p = CHR ''*'' \<and> stringmatch ps [])"
| "stringmatch (p # ps) (c # cs) =
     (if p = CHR ''*'' then stringmatch ps (c # cs) \<or> stringmatch (p # ps) cs
      else if p = CHR ''?'' then stringmatch ps cs
      else if p = CHR ''['' then
        (let negated = (ps \<noteq> [] \<and> hd ps = CHR ''^'');
             members = (if negated then tl ps else ps)
         in (fst (match_class members c) \<noteq> negated) \<and> stringmatch (snd (match_class members c)) cs)
      else if p = CHR 0x5C \<and> ps \<noteq> [] then hd ps = c \<and> stringmatch (tl ps) cs
      else p = c \<and> stringmatch ps cs)"
  by pat_completeness auto
termination
proof (relation "measure (\<lambda>(p, s). length p + length s)", goal_cases)
  case 1
  show ?case by simp
next
  case (6 p ps c cs negated members)
  have "length (snd (match_class members c)) \<le> length members"
    by (rule match_class_rest)
  also from 6 have "\<dots> \<le> length ps" by (auto split: if_splits)
  finally show ?case by simp
qed auto

definition redis_keys :: "redis \<Rightarrow> string \<Rightarrow> string list" where
  "redis_keys db pattern = filter (stringmatch pattern) (map fst db)"

section \<open>JavaScript helpers\<close>

text \<open>
  \<^verbatim>\<open>s.split(sep)\<close> for a one-character separator, \<^verbatim>\<open>xs[i]\<close> (\<open>None\<close> for
  \<^verbatim>\<open>undefined\<close>), \<^verbatim>\<open>!s\<close> on a string that may be null, and the case
  conversions on ASCII letters (other characters are left as they are).
\<close>

fun str_split :: "char \<Rightarrow> string \<Rightarrow> string list" where
  "str_split sep [] = [[]]"
| "str_split sep (c # cs) =
     (if c = sep then [] # str_split sep cs
      else (case str_split sep cs of [] \<Rightarrow> [[c]] | w # ws \<Rightarrow> (c # w) # ws))"

definition at_index :: "'a list \<Rightarrow> nat \<Rightarrow> 'a option" where
  "at_index xs i = (if i < length xs then Some (xs ! i) else None)"

definition falsy :: "string option \<Rightarrow> bool" where
  "falsy v = (case v of None \<Rightarrow> True | Some s \<Rightarrow> s = [])"

definition lower_char :: "char \<Rightarrow> char" where
  "lower_char c =
     (if 65 \<le> (of_char c :: nat) \<and> (of_char c :: nat) \<le> 90 then char_of ((of_char c :: nat) + 32) else c)"

definition upper_char :: "char \<Rightarrow> char" where
  "upper_char c =
     (if 97 \<le> (of_char c :: nat) \<and> (of_char c :: nat) \<le> 122 then char_of ((of_char c :: nat) - 32) else c)"

definition toLowerCase :: "string \<Rightarrow> string" where
  "toLowerCase s = map lower_char s"

definition toUpperCase :: "string \<Rightarrow> string" where
  "toUpperCase s = map upper_char s"

text \<open>
  The own enumerable properties an object spread \<^verbatim>\<open>{...v}\<close> copies: those of an
  object; the indices of an array or of a string; none for null, a boolean or a
  number. \<open>spread obj props\<close> assigns the properties to \<open>obj\<close> one by one, so
  \<^verbatim>\<open>{id, ...validatedData}\<close> is \<open>spread [(''id'', id)] validatedData\<close>, and
  \<^verbatim>\<open>{...existingEntry, ...updateData}\<close> is the copy of the own properties of
  \<open>existingEntry\<close> with those of \<open>updateData\<close> assigned to it.
\<close>

fun decimal :: "nat \<Rightarrow> string" where
  "decimal n =
     (if n < 10 then [char_of (48 + n)] else decimal (n div 10) @ [char_of (48 + n mod 10)])"

declare decimal.simps [simp del]

definition own_properties :: "json \<Rightarrow> (string \<times> json) list" where
  "own_properties v =
     (case v of
        JObj kvs \<Rightarrow> kvs
      | JArr xs \<Rightarrow> zip (map decimal [0..<length xs]) xs
      | JStr s \<Rightarrow> zip (map decimal [0..<length s]) (map (\<lambda>c. JStr [c]) s)
      | _ \<Rightarrow> [])"

definition spread :: "(string \<times> json) list \<Rightarrow> (string \<times> json) list \<Rightarrow> (string \<times> json) list" where
  "spread obj props = fold (\<lambda>kv. AList.update (fst kv) (snd kv)) props obj"

section \<open>The upstream catalog\<close>

text \<open>
  The records of the catalog client, reduced to the properties
  \<^verbatim>\<open>getPokemonDetails\<close> reads: \<^verbatim>\<open>types[].type.name\<close>, \<^verbatim>\<open>moves[].move.name\<close>,
  \<^verbatim>\<open>stats[]\<close> as pairs of \<^verbatim>\<open>stat.name\<close> and \<^verbatim>\<open>base_stat\<close>, and the localized
  entries as pairs of \<^verbatim>\<open>language.name\<close> and the text. A rejected call carries
  \<^verbatim>\<open>error.response?.status\<close>, if there is one.
\<close>

record Sprites =
  front_default :: "string option"
  back_default :: "string option"
  front_shiny :: "string option"
  back_shiny :: "string option"

record PokemonData =
  data_id :: int
  data_name :: string
  data_types :: "string list"
  data_moves :: "string list"
  data_stats :: "(string \<times> int) list"
  data_sprites :: Sprites

record SpeciesData =
  flavor_text_entries :: "(string \<times> string) list"
  species_names :: "(string \<times> string) list"

record MoveData =
  move_data_names :: "(string \<times> string) list"
  move_data_name :: string
  move_data_type :: string
  move_data_power :: "int option"

datatype upstream_error = UpstreamError (response_status: "nat option")

record pokedex =
  getPokemonByName :: "string \<Rightarrow> upstream_error + PokemonData"
  getPokemonSpeciesByName :: "string \<Rightarrow> upstream_error + SpeciesData"
  getMoveByName :: "string \<Rightarrow> upstream_error + MoveData"
  getPokemonsList :: "int \<Rightarrow> int \<Rightarrow> upstream_error + string list"

section \<open>The composite creature\<close>

record PokemonType =
  type_name :: string
  color :: string

record PokemonMove =
  move_name :: string
  power :: "int option"
  move_type :: PokemonType

record Stats =
  hp :: int
  speed :: int
  attack :: int
  defense :: int
  specialAttack :: int
  specialDefense :: int

record Pokemon =
  pokemon_id :: int
  pokemon_name :: string
  description :: string
  types :: "PokemonType list"
  moves :: "PokemonMove list"
  sprites :: Sprites
  stats :: Stats

definition typeColors :: "(string \<times> string) list" where
  "typeColors =
     [(''normal'', ''#A8A878''), (''fire'', ''#F08030''), (''water'', ''#6890F0''),
      (''electric'', ''#F8D030''), (''grass'', ''#78C850''), (''ice'', ''#98D8D8''),
      (''fighting'', ''#C03028''), (''poison'', ''#A040A0''), (''ground'', ''#E0C068''),
      (''flying'', ''#A890F0''), (''psychic'', ''#F85888''), (''bug'', ''#A8B820''),
      (''rock'', ''#B8A038''), (''ghost'', ''#705898''), (''dragon'', ''#7038F8''),
      (''dark'', ''#705848''), (''steel'', ''#B8B8D0''), (''fairy'', ''#EE99AC'')]"

definition pokemonType :: "string \<Rightarrow> PokemonType" where
  "pokemonType n =
     \<lparr>type_name = toUpperCase n,
      color = (case map_of typeColors n of Some c \<Rightarrow> c | None \<Rightarrow> ''#68A090'')\<rparr>"

definition english :: "(string \<times> string) list \<Rightarrow> (string \<times> string) option" where
  "english entries = find (\<lambda>entry. fst entry = ''en'') entries"

text \<open>
  The body of the \<^verbatim>\<open>try\<close> block of one move promise, and the promise itself: a
  rejected \<^verbatim>\<open>getMoveByName\<close> is caught and becomes \<^verbatim>\<open>null\<close>.
\<close>

definition pokemonMove :: "MoveData \<Rightarrow> PokemonMove" where
  "pokemonMove moveData =
     \<lparr>move_name = (case english (move_data_names moveData) of
                     Some n \<Rightarrow> snd n | None \<Rightarrow> move_data_name moveData),
      power = (case move_data_power moveData of
                 Some pw \<Rightarrow> if pw \<noteq> 0 \<and> 0 < pw then Some pw else None
               | None \<Rightarrow> None),
      move_type = pokemonType (move_data_type moveData)\<rparr>"

definition movePromise :: "pokedex \<Rightarrow> string \<Rightarrow> PokemonMove option" where
  "movePromise api m =
     (case getMoveByName api m of Inl error \<Rightarrow> None | Inr moveData \<Rightarrow> Some (pokemonMove moveData))"

definition base_stat :: "PokemonData \<Rightarrow> string \<Rightarrow> int" where
  "base_stat pokemonData n =
     (case find (\<lambda>s. fst s = n) (data_stats pokemonData) of Some s \<Rightarrow> snd s | None \<Rightarrow> 0)"

definition or_null :: "string option \<Rightarrow> string option" where
  "or_null v = (if falsy v then None else v)"

definition getPokemonDetails :: "pokedex \<Rightarrow> string \<Rightarrow> upstream_error + Pokemon" where
  "getPokemonDetails api name =
     (case getPokemonByName api name of
        Inl error \<Rightarrow> Inl error
      | Inr pokemonData \<Rightarrow>
          (case getPokemonSpeciesByName api name of
             Inl error \<Rightarrow> Inl error
           | Inr speciesData \<Rightarrow>
               Inr \<lparr>pokemon_id = data_id pokemonData,
                    pokemon_name =
                      (case english (species_names speciesData) of
                         Some n \<Rightarrow> snd n | None \<Rightarrow> data_name pokemonData),
                    description =
                      (case english (flavor_text_entries speciesData) of
                         Some entry \<Rightarrow>
                           map (\<lambda>c. if c = CHR 0x0C \<or> c = CHR 0x0A then CHR '' '' else c) (snd entry)
                       | None \<Rightarrow> ''No description available''),
                    types = map pokemonType (data_types pokemonData),
                    moves =
                      map the (filter (\<lambda>m. m \<noteq> None)
                        (map (movePromise api) (take 10 (data_moves pokemonData)))),
                    sprites =
                      \<lparr>front_default = or_null (front_default (data_sprites pokemonData)),
                       back_default = or_null (back_default (data_sprites pokemonData)),
                       front_shiny = or_null (front_shiny (data_sprites pokemonData)),
                       back_shiny = or_null (back_shiny (data_sprites pokemonData))\<rparr>,
                    stats =
                      \<lparr>hp = base_stat pokemonData ''hp'',
                       speed = base_stat pokemonData ''speed'',
                       attack = base_stat pokemonData ''attack'',
                       defense = base_stat pokemonData ''defense'',
                       specialAttack = base_stat pokemonData ''special-attack'',
                       specialDefense = base_stat pokemonData ''special-defense''\<rparr>\<rparr>))"

section \<open>Responses\<close>

text \<open>
  What a handler sends: \<^verbatim>\<open>res.status(n).json(...)\<close> with a JSON value, a creature
  or a list of creatures, with an error object \<^verbatim>\<open>{code, message}\<close>, with an error
  object that also has \<^verbatim>\<open>errors\<close>, or \<^verbatim>\<open>res.status(n).send()\<close> with no body.
\<close>

datatype payload =
    Value json
  | Creature Pokemon
  | Creatures "Pokemon list"
  | Failure string string
  | Invalid string string "zod_issue list"
  | NoBody

datatype response = Response (status: nat) (body: payload)




section \<open>Authentication\<close>


section \<open>Catalog routes\<close>

text \<open>
  \<^verbatim>\<open>GET /pokemon/\<close>. The arguments are what \<^verbatim>\<open>parseInt\<close> made of the query
  parameters, \<open>None\<close> for \<^verbatim>\<open>NaN\<close>. \<^verbatim>\<open>Promise.all\<close> resolves to the results in
  the order of the promises when all of them resolve and rejects when one of them
  does; the handler answers every rejection alike, so which rejection it sees
  (here the first of the list) makes no difference.
\<close>

fun Promise_all :: "('e + 'a) list \<Rightarrow> 'e + 'a list" where
  "Promise_all [] = Inr []"
| "Promise_all (p # ps) =
     (case p of
        Inl error \<Rightarrow> Inl error
      | Inr v \<Rightarrow> (case Promise_all ps of Inl error \<Rightarrow> Inl error | Inr vs \<Rightarrow> Inr (v # vs)))"

definition get_pokemon :: "pokedex \<Rightarrow> int option \<Rightarrow> int option \<Rightarrow> response" where
  "get_pokemon api limit offset =
     (case (limit, offset) of
        (Some l, Some off) \<Rightarrow>
          if l \<le> 0 \<or> off < 0 then
            Response 400 (Failure ''BAD_REQUEST'' ''Invalid limit or offset parameters'')
          else
            (case getPokemonsList api l off of
               Inl error \<Rightarrow>
                 Response 500 (Failure ''INTERNAL_SERVER_ERROR'' ''Failed to fetch Pokemon list'')
             | Inr results \<Rightarrow>
                 (let pokemonPromises = map (getPokemonDetails api) results
                  in case Promise_all pokemonPromises of
                       Inr pokemonList \<Rightarrow> Response 200 (Creatures pokemonList)
                     | Inl error \<Rightarrow>
                         Response 500 (Failure ''INTERNAL_SERVER_ERROR'' ''Failed to fetch Pokemon list'')))
      | _ \<Rightarrow> Response 400 (Failure ''BAD_REQUEST'' ''Invalid limit or offset parameters''))"

text \<open>\<^verbatim>\<open>GET /pokemon/:name\<close>.\<close>

definition get_pokemon_name :: "pokedex \<Rightarrow> string \<Rightarrow> response" where
  "get_pokemon_name api name =
     (if name = [] then Response 400 (Failure ''BAD_REQUEST'' ''Pokemon name is required'')
      else
        (case getPokemonDetails api (toLowerCase name) of
           Inr pokemon \<Rightarrow> Response 200 (Creature pokemon)
         | Inl error \<Rightarrow>
             if response_status error = Some 404 then
               Response 404 (Failure ''NOT_FOUND'' ''Pokemon not found'')
             else Response 500 (Failure ''INTERNAL_SERVER_ERROR'' ''Failed to fetch Pokemon'')))"

section \<open>Box routes\<close>

text \<open>
  Every box handler runs after \<open>authenticate\<close> and reads the identity from
  \<^verbatim>\<open>req.pennkey\<close>. The key of an entry and the pattern of an identity are the
  template literals of the source.
\<close>

definition box_key :: "string \<Rightarrow> string \<Rightarrow> string" where
  "box_key pennkey ident = pennkey @ '':pokedex:'' @ ident"

definition box_pattern :: "string \<Rightarrow> string" where
  "box_pattern pennkey = pennkey @ '':pokedex:*''"

text \<open>\<^verbatim>\<open>GET /box/\<close>: an \<^verbatim>\<open>undefined\<close> element of the array is sent as null.\<close>

definition get_box :: "string \<Rightarrow> redis \<Rightarrow> response" where
  "get_box pennkey db =
     (let keys = redis_keys db (box_pattern pennkey);
          ids = map (\<lambda>key. at_index (str_split CHR '':'' key) 2) keys
      in Response 200 (Value (JArr (map (\<lambda>i. case i of Some s \<Rightarrow> JStr s | None \<Rightarrow> JNull) ids))))"

text \<open>\<^verbatim>\<open>POST /box/\<close>; \<open>cuid\<close> is what \<^verbatim>\<open>createId()\<close> returns for this request.\<close>

definition post_box :: "runtime \<Rightarrow> string \<Rightarrow> json \<Rightarrow> string \<Rightarrow> redis \<Rightarrow> response \<times> redis" where
  "post_box rt pennkey req_body cuid db =
     (case zod_parse rt InsertBoxEntrySchema req_body of
        Inl errors \<Rightarrow> (Response 400 (Invalid ''BAD_REQUEST'' ''Invalid request body'' errors), db)
      | Inr validatedData \<Rightarrow>
          (let boxEntry = JObj (spread [(''id'', JStr cuid)] validatedData);
               key = box_key pennkey cuid
           in (Response 201 (Value boxEntry), redis_set db key (JSON_stringify rt boxEntry))))"

text \<open>\<^verbatim>\<open>GET /box/:id\<close>.\<close>

definition get_box_id :: "runtime \<Rightarrow> string \<Rightarrow> string \<Rightarrow> redis \<Rightarrow> response" where
  "get_box_id rt pennkey ident db =
     (let data = redis_get db (box_key pennkey ident)
      in if falsy data then Response 404 (Failure ''NOT_FOUND'' ''Box entry not found'')
         else
           (case JSON_parse rt (the data) of
              Some boxEntry \<Rightarrow> Response 200 (Value boxEntry)
            | None \<Rightarrow> Response 500 (Failure ''INTERNAL_SERVER_ERROR'' ''Failed to fetch Box entry'')))"

text \<open>\<^verbatim>\<open>PUT /box/:id\<close>.\<close>

definition put_box_id :: "runtime \<Rightarrow> string \<Rightarrow> string \<Rightarrow> json \<Rightarrow> redis \<Rightarrow> response \<times> redis" where
  "put_box_id rt pennkey ident req_body db =
     (let key = box_key pennkey ident;
          existingData = redis_get db key
      in if falsy existingData then (Response 404 (Failure ''NOT_FOUND'' ''Box entry not found''), db)
         else
           (case JSON_parse rt (the existingData) of
              None \<Rightarrow> (Response 500 (Failure ''INTERNAL_SERVER_ERROR'' ''Failed to update Box entry''), db)
            | Some existingEntry \<Rightarrow>
                (case zod_parse rt UpdateBoxEntrySchema req_body of
                   Inl errors \<Rightarrow>
                     (Response 400 (Invalid ''BAD_REQUEST'' ''Invalid request body'' errors), db)
                 | Inr updateData \<Rightarrow>
                     (let updatedEntry = JObj (spread (own_properties existingEntry) updateData)
                      in case zod_parse rt BoxEntrySchema updatedEntry of
                           Inl errors \<Rightarrow>
                             (Response 400 (Invalid ''BAD_REQUEST'' ''Invalid request body'' errors), db)
                         | Inr checked \<Rightarrow>
                             (Response 200 (Value updatedEntry),
                              redis_set db key (JSON_stringify rt updatedEntry))))))"

text \<open>\<^verbatim>\<open>DELETE /box/:id\<close>.\<close>

definition delete_box_id :: "string \<Rightarrow> string \<Rightarrow> redis \<Rightarrow> response \<times> redis" where
  "delete_box_id pennkey ident db =
     (let key = box_key pennkey ident
      in if redis_exists db key then (Response 204 NoBody, redis_del db [key])
         else (Response 404 (Failure ''NOT_FOUND'' ''Box entry not found''), db))"

text \<open>\<^verbatim>\<open>DELETE /box/\<close>.\<close>

definition delete_box :: "string \<Rightarrow> redis \<Rightarrow> response \<times> redis" where
  "delete_box pennkey db =
     (let keys = redis_keys db (box_pattern pennkey)
      in (Response 204 NoBody, if 0 < length keys then redis_del db keys else db))"

section \<open>Entries of an identity\<close>

text \<open>
  Two notions for stating what the key scheme isolates. An identity is plain when
  it has no colon and none of the pattern characters \<^verbatim>\<open>*\<close>, \<^verbatim>\<open>?\<close>, \<^verbatim>\<open>[\<close> and
  backslash. The entries of an identity are the part of the store whose keys begin
  with the identity and \<^verbatim>\<open>:pokedex:\<close>.
\<close>

definition plain :: "string \<Rightarrow> bool" where
  "plain s = (\<forall>c \<in> set s. c \<notin> {CHR '':'', CHR ''*'', CHR ''?'', CHR ''['', CHR 0x5C})"

definition entries_of :: "string \<Rightarrow> redis \<Rightarrow> redis" where
  "entries_of pennkey db = filter (\<lambda>kv. prefix (pennkey @ '':pokedex:'') (fst kv)) db"

section \<open>Fixtures for the worked examples\<close>

text \<open>
  One catalog and one runtime on which the theorems below are run. The catalog
  knows one creature with twelve moves, two of which cannot be fetched; it reports
  \<^verbatim>\<open>missingno\<close> as not found and fails otherwise. The runtime serialises the
  entry of the examples, before and after its update, and parses the two texts
  back.
\<close>

definition fixture_pokemon :: PokemonData where
  "fixture_pokemon =
     \<lparr>data_id = 25, data_name = ''pikachu'', data_types = [''electric''],
      data_moves = [''m1'', ''m2'', ''m3'', ''m4'', ''m5'', ''m6'',
                    ''m7'', ''m8'', ''m9'', ''m10'', ''m11'', ''m12''],
      data_stats = [(''hp'', 35), (''speed'', 90)],
      data_sprites = \<lparr>front_default = Some ''front.png'', back_default = None,
                       front_shiny = Some [], back_shiny = None\<rparr>\<rparr>"

definition fixture_catalog :: pokedex where
  "fixture_catalog =
     \<lparr>getPokemonByName =
        (\<lambda>n. if n = ''pikachu'' then Inr fixture_pokemon
             else if n = ''missingno'' then Inl (UpstreamError (Some 404))
             else Inl (UpstreamError None)),
      getPokemonSpeciesByName =
        (\<lambda>n. if n = ''pikachu''
             then Inr \<lparr>flavor_text_entries = [(''fr'', ''Souris''), (''en'', ''Mouse'')],
                       species_names = [(''en'', ''Pikachu'')]\<rparr>
             else Inl (UpstreamError (Some 404))),
      getMoveByName =
        (\<lambda>m. if m = ''m3'' \<or> m = ''m7'' then Inl (UpstreamError (Some 404))
             else Inr \<lparr>move_data_names = [], move_data_name = m,
                       move_data_type = ''electric'', move_data_power = Some 40\<rparr>),
      getPokemonsList = (\<lambda>l off. Inr (take (nat l) (drop (nat off) [''pikachu''])))\<rparr>"

definition fixture_entry :: json where
  "fixture_entry =
     JObj [(''id'', JStr ''c1''), (''createdAt'', JStr ''2025-10-01T12:00:00Z''),
           (''level'', JNum 5), (''location'', JStr ''Route 1''), (''pokemonId'', JNum 25)]"

definition fixture_text :: string where
  \<open>fixture_text =
     ''{"id":"c1","createdAt":"2025-10-01T12:00:00Z","level":5,"location":"Route 1","pokemonId":25}''\<close>

definition fixture_updated :: json where
  "fixture_updated =
     JObj [(''id'', JStr ''c1''), (''createdAt'', JStr ''2025-10-01T12:00:00Z''),
           (''level'', JNum 6), (''location'', JStr ''Route 1''), (''pokemonId'', JNum 25)]"

definition fixture_updated_text :: string where
  \<open>fixture_updated_text =
     ''{"id":"c1","createdAt":"2025-10-01T12:00:00Z","level":6,"location":"Route 1","pokemonId":25}''\<close>

definition fixture_runtime :: runtime where
  "fixture_runtime =
     \<lparr>isDatetime = (\<lambda>s. s = ''2025-10-01T12:00:00Z''),
      JSON_stringify =
        (\<lambda>v. if v = fixture_entry then fixture_text
             else if v = fixture_updated then fixture_updated_text else ''null''),
      JSON_parse =
        (\<lambda>s. if s = fixture_text then Some fixture_entry
             else if s = fixture_updated_text then Some fixture_updated else None),
      jwt_verify = (\<lambda>t. if t = ''token-of-ash'' then Some ''ash'' else None)\<rparr>"

section \<open>Facts about the building blocks\<close>

lemma map_of_spread:
  "map_of (spread obj props) k = (case map_of (rev props) k of Some v \<Rightarrow> Some v | None \<Rightarrow> map_of obj k)"
  unfolding spread_def
proof (induction props arbitrary: obj)
  case Nil
  show ?case by simp
next
  case (Cons kv props)
  show ?case
    by (simp add: Cons.IH update_conv' map_add_def split: option.splits)
qed

lemma field_output_keys:
  "map_of (concat (map (field_output data) shape)) k =
     (if k \<in> fst ` set shape then map_of data k else None)"
  by (induction shape) (auto simp: field_output_def map_add_def split: option.splits)

lemma field_output_keys_rev:
  "map_of (rev (concat (map (field_output data) shape))) k =
     (if k \<in> fst ` set shape then map_of data k else None)"
  by (induction shape) (auto simp: field_output_def map_add_def rev_concat split: option.splits)

lemma zod_parse_Inr:
  "zod_parse rt shape input = Inr out \<Longrightarrow>
     \<exists>data. input = JObj data \<and> out = concat (map (field_output data) shape)
       \<and> concat (map (field_issues rt data) shape) = []"
  by (auto simp: zod_parse_def Let_def split: json.splits if_splits)

lemma zod_parse_Inl:
  "zod_parse rt shape input = Inl errors \<Longrightarrow> errors \<noteq> []"
  by (auto simp: zod_parse_def Let_def split: json.splits if_splits)

lemma zod_parse_issue_paths:
  assumes "zod_parse rt shape (JObj data) = Inl errors" and "e \<in> set errors"
  shows "\<exists>k \<in> fst ` set shape. issue_path e = [k]"
proof -
  from assms(1) have "errors = concat (map (field_issues rt data) shape)"
    by (simp add: zod_parse_def Let_def split: if_splits)
  with assms(2) obtain kt where kt: "kt \<in> set shape" "e \<in> set (field_issues rt data kt)"
    by auto
  from kt(2) have "issue_path e = [fst kt]"
    by (auto simp: field_issues_def)
  with kt(1) show ?thesis by blast
qed

lemma Promise_all_resolved:
  "(\<forall>p \<in> set ps. \<not> isl p) \<Longrightarrow> Promise_all ps = Inr (map projr ps)"
  by (induction ps) (auto split: sum.splits)

lemma Promise_all_Inl:
  "isl (Promise_all ps) \<longleftrightarrow> (\<exists>p \<in> set ps. isl p)"
  by (induction ps) (auto split: sum.splits)



lemma parse_type_datetime:
  "parse_type rt (ZString [SDatetime]) v = [] \<longleftrightarrow> (\<exists>s. v = Some (JStr s) \<and> isDatetime rt s)"
  by (auto split: option.splits json.splits)

lemma parse_type_level:
  "parse_type rt (ZNumber [NInt, NMin 1, NMax 100]) v = [] \<longleftrightarrow>
     (\<exists>x. v = Some (JNum x) \<and> of_int \<lfloor>x\<rfloor> = x \<and> 1 \<le> x \<and> x \<le> 100)"
  by (auto split: option.splits json.splits)

lemma parse_type_location:
  "parse_type rt (ZString [SMin 1]) v = [] \<longleftrightarrow> (\<exists>s. v = Some (JStr s) \<and> s \<noteq> [])"
  by (auto split: option.splits json.splits simp: Suc_le_eq)

lemma parse_type_notes:
  "parse_type rt (ZOptional (ZString [])) v = [] \<longleftrightarrow> (v = None \<or> (\<exists>s. v = Some (JStr s)))"
  by (auto split: option.splits json.splits)

lemma parse_type_pokemonId:
  "parse_type rt (ZNumber [NInt, NPositive]) v = [] \<longleftrightarrow>
     (\<exists>x. v = Some (JNum x) \<and> of_int \<lfloor>x\<rfloor> = x \<and> 0 < x)"
  by (auto split: option.splits json.splits)

lemma parse_type_optional_Some:
  "parse_type rt (ZOptional t) (Some v) = parse_type rt t (Some v)"
  by simp

lemma zod_parse_rejects_field:
  assumes "(k, t) \<in> set shape" and "parse_type rt t (map_of data k) \<noteq> []"
  shows "\<exists>errors. zod_parse rt shape (JObj data) = Inl errors \<and> (\<exists>e \<in> set errors. issue_path e = [k])"
proof -
  from assms(2) obtain c where c: "c \<in> set (parse_type rt t (map_of data k))"
    by (cases "parse_type rt t (map_of data k)") auto
  let ?e = "\<lparr>issue_code = c, issue_path = [k]\<rparr>"
  from c have "?e \<in> set (field_issues rt data (k, t))"
    by (simp add: field_issues_def)
  with assms(1) have mem: "?e \<in> set (concat (map (field_issues rt data) shape))"
    by auto
  then have "concat (map (field_issues rt data) shape) \<noteq> []"
    by (metis empty_iff list.set(1))
  then have "zod_parse rt shape (JObj data) = Inl (concat (map (field_issues rt data) shape))"
    by (simp add: zod_parse_def)
  with mem show ?thesis by force
qed

lemma zod_parse_cong:
  assumes "\<forall>k \<in> fst ` set shape. map_of data' k = map_of data k"
  shows "zod_parse rt shape (JObj data') = zod_parse rt shape (JObj data)"
proof -
  from assms have "map (field_issues rt data') shape = map (field_issues rt data) shape"
    by (auto simp: field_issues_def)
  moreover from assms have "map (field_output data') shape = map (field_output data) shape"
    by (auto simp: field_output_def)
  ultimately show ?thesis by (simp only: zod_parse_def json.case)
qed


lemma post_box_rejects:
  assumes "zod_parse rt InsertBoxEntrySchema req_body = Inl errors"
  shows "post_box rt pennkey req_body cuid db =
     (Response 400 (Invalid ''BAD_REQUEST'' ''Invalid request body'' errors), db)"
  using assms by (simp add: post_box_def)

lemma get_after_set:
  assumes "text \<noteq> []" and "JSON_parse rt text = Some entry"
  shows "get_box_id rt pennkey ident (redis_set db (box_key pennkey ident) text) = Response 200 (Value entry)"
  using assms by (simp add: get_box_id_def redis_get_def redis_set_def update_conv' falsy_def)

lemma get_box_id_stored:
  assumes "redis_get db (box_key pennkey ident) = Some text" and "text \<noteq> []"
    and "JSON_parse rt text = Some entry"
  shows "get_box_id rt pennkey ident db = Response 200 (Value entry)"
  using assms by (simp add: get_box_id_def falsy_def)


lemma UpdateBoxEntrySchema_keys:
  "fst ` set UpdateBoxEntrySchema = {''createdAt'', ''level'', ''location'', ''notes'', ''pokemonId''}"
  by (auto simp: UpdateBoxEntrySchema_def partial_def)




lemma put_box_id_stored:
  assumes "redis_get db (box_key pennkey ident) = Some existingData" and "existingData \<noteq> []"
    and "JSON_parse rt existingData = Some existingEntry"
  shows "put_box_id rt pennkey ident req_body db =
     (case zod_parse rt UpdateBoxEntrySchema req_body of
        Inl errors \<Rightarrow> (Response 400 (Invalid ''BAD_REQUEST'' ''Invalid request body'' errors), db)
      | Inr updateData \<Rightarrow>
          (case zod_parse rt BoxEntrySchema (JObj (spread (own_properties existingEntry) updateData)) of
             Inl errors \<Rightarrow> (Response 400 (Invalid ''BAD_REQUEST'' ''Invalid request body'' errors), db)
           | Inr checked \<Rightarrow>
               (Response 200 (Value (JObj (spread (own_properties existingEntry) updateData))),
                redis_set db (box_key pennkey ident)
                  (JSON_stringify rt (JObj (spread (own_properties existingEntry) updateData))))))"
  using assms by (simp add: put_box_id_def Let_def falsy_def split: sum.splits)

lemma level_101_too_big:
  assumes "map_of payload ''level'' = Some (JNum 101)"
    and "zod_parse rt UpdateBoxEntrySchema (JObj payload) = Inl errors"
  shows "\<lparr>issue_code = ''too_big'', issue_path = [''level'']\<rparr> \<in> set errors"
proof -
  from assms(2) have "errors = concat (map (field_issues rt payload) UpdateBoxEntrySchema)"
    by (simp add: zod_parse_def Let_def split: if_splits)
  moreover have "field_issues rt payload (''level'', ZOptional (ZOptional (ZNumber [NInt, NMin 1, NMax 100])))
      = [\<lparr>issue_code = ''too_big'', issue_path = [''level'']\<rparr>]"
    using assms(1) by (simp add: field_issues_def)
  ultimately show ?thesis
    by (simp add: UpdateBoxEntrySchema_def partial_def)
qed

lemma level_101_rejected:
  assumes "map_of payload ''level'' = Some (JNum 101)"
  shows "isl (zod_parse rt UpdateBoxEntrySchema (JObj payload))"
proof -
  have "(''level'', ZOptional (ZOptional (ZNumber [NInt, NMin 1, NMax 100]))) \<in> set UpdateBoxEntrySchema"
    by (simp add: UpdateBoxEntrySchema_def partial_def)
  moreover have "parse_type rt (ZOptional (ZOptional (ZNumber [NInt, NMin 1, NMax 100])))
      (map_of payload ''level'') \<noteq> []"
    using assms by simp
  ultimately show ?thesis
    using zod_parse_rejects_field by fastforce
qed

lemmas fixture_defs =
  fixture_catalog_def fixture_pokemon_def fixture_runtime_def fixture_entry_def fixture_text_def
  fixture_updated_def fixture_updated_text_def

lemmas box_defs =
  post_box_def get_box_id_def put_box_id_def delete_box_id_def delete_box_def get_box_def
  box_key_def box_pattern_def redis_get_def redis_set_def redis_exists_def redis_del_def
  redis_keys_def zod_parse_def field_issues_def field_output_def spread_def own_properties_def
  InsertBoxEntrySchema_def UpdateBoxEntrySchema_def BoxEntrySchema_def partial_def extend_schema_def
  falsy_def at_index_def Let_def

lemmas catalog_defs =
  getPokemonDetails_def movePromise_def pokemonMove_def english_def pokemonType_def
  toUpperCase_def upper_char_def toLowerCase_def lower_char_def typeColors_def or_null_def
  falsy_def base_stat_def

section \<open>The catalog aggregator\<close>

text \<open>
  C2. Once the base record and the species record of a creature are fetched,
  \<open>getPokemonDetails\<close> returns a creature whatever the move fetches do. Its moves
  are built from the first ten move references only, each from its own
  \<^verbatim>\<open>getMoveByName\<close> call; a reference whose call is rejected is left out and the
  others keep the order they have in the upstream list. So there are at most ten.
\<close>

theorem moves_are_first_ten_survivors:
  assumes "getPokemonByName api name = Inr pokemonData"
    and "getPokemonSpeciesByName api name = Inr speciesData"
  shows "case getPokemonDetails api name of
           Inl error \<Rightarrow> False
         | Inr pokemon \<Rightarrow>
             moves pokemon =
               map (\<lambda>m. pokemonMove (projr (getMoveByName api m)))
                 (filter (\<lambda>m. \<not> isl (getMoveByName api m)) (take 10 (data_moves pokemonData)))
             \<and> length (moves pokemon) \<le> 10"
proof -
  have "map the (filter (\<lambda>m. m \<noteq> None) (map (movePromise api) ms))
      = map (\<lambda>m. pokemonMove (projr (getMoveByName api m)))
          (filter (\<lambda>m. \<not> isl (getMoveByName api m)) ms)" for ms
    by (induction ms) (auto simp: movePromise_def split: sum.splits)
  moreover have "length (filter (\<lambda>m. \<not> isl (getMoveByName api m)) (take 10 (data_moves pokemonData))) \<le> 10"
    by (rule order_trans [OF length_filter_le]) simp
  ultimately show ?thesis
    using assms by (simp add: getPokemonDetails_def)
qed

text \<open>
  The fixture has twelve move references; the third and the seventh cannot be
  fetched, the eleventh and the twelfth are never asked for: eight moves come back,
  in upstream order.
\<close>

theorem moves_are_first_ten_survivors_witness:
  "getPokemonByName fixture_catalog ''pikachu'' = Inr fixture_pokemon
   \<and> length (data_moves fixture_pokemon) = 12
   \<and> (case getPokemonDetails fixture_catalog ''pikachu'' of
         Inl error \<Rightarrow> False
       | Inr pokemon \<Rightarrow>
           map move_name (moves pokemon) = [''m1'', ''m2'', ''m4'', ''m5'', ''m6'', ''m8'', ''m9'', ''m10'']
           \<and> length (moves pokemon) \<le> 10)"
proof -
  have base: "getPokemonByName fixture_catalog ''pikachu'' = Inr fixture_pokemon"
    by (simp add: fixture_catalog_def)
  have species: "getPokemonSpeciesByName fixture_catalog ''pikachu'' =
      Inr \<lparr>flavor_text_entries = [(''fr'', ''Souris''), (''en'', ''Mouse'')],
           species_names = [(''en'', ''Pikachu'')]\<rparr>"
    by (simp add: fixture_catalog_def)
  have twelve: "length (data_moves fixture_pokemon) = 12"
    by (simp add: fixture_pokemon_def)
  from moves_are_first_ten_survivors [OF base species] base twelve show ?thesis
    by (simp add: fixture_defs pokemonMove_def english_def split: sum.splits)
qed

text \<open>
  C6. \<^verbatim>\<open>GET /pokemon/:name\<close> with a non-empty name: when the base-record fetch is
  rejected, or it resolves and the species-record fetch is rejected, the
  aggregation is rejected with that very error, and the handler answers 404 with
  code \<^verbatim>\<open>NOT_FOUND\<close> if the error carries the upstream status 404, and 500 with
  code \<^verbatim>\<open>INTERNAL_SERVER_ERROR\<close> for every other error.
\<close>

theorem upstream_failure_of_single_lookup:
  assumes "name \<noteq> []"
    and "getPokemonByName api (toLowerCase name) = Inl error
         \<or> (\<not> isl (getPokemonByName api (toLowerCase name))
            \<and> getPokemonSpeciesByName api (toLowerCase name) = Inl error)"
  shows "getPokemonDetails api (toLowerCase name) = Inl error
     \<and> get_pokemon_name api name =
        (if response_status error = Some 404
         then Response 404 (Failure ''NOT_FOUND'' ''Pokemon not found'')
         else Response 500 (Failure ''INTERNAL_SERVER_ERROR'' ''Failed to fetch Pokemon''))"
proof -
  from assms(2) have "getPokemonDetails api (toLowerCase name) = Inl error"
    by (auto simp: getPokemonDetails_def split: sum.splits)
  with assms(1) show ?thesis by (simp add: get_pokemon_name_def)
qed

theorem upstream_failure_of_single_lookup_witness:
  "get_pokemon_name fixture_catalog ''missingno'' = Response 404 (Failure ''NOT_FOUND'' ''Pokemon not found'')
   \<and> get_pokemon_name fixture_catalog ''glitch'' =
       Response 500 (Failure ''INTERNAL_SERVER_ERROR'' ''Failed to fetch Pokemon'')"
proof -
  have lower: "toLowerCase ''missingno'' = ''missingno''" "toLowerCase ''glitch'' = ''glitch''"
    by (simp_all add: toLowerCase_def lower_char_def)
  have "getPokemonByName fixture_catalog (toLowerCase ''missingno'') = Inl (UpstreamError (Some 404))"
    by (simp add: lower fixture_catalog_def)
  then have missing: "getPokemonByName fixture_catalog (toLowerCase ''missingno'') = Inl (UpstreamError (Some 404))
      \<or> (\<not> isl (getPokemonByName fixture_catalog (toLowerCase ''missingno''))
         \<and> getPokemonSpeciesByName fixture_catalog (toLowerCase ''missingno'') = Inl (UpstreamError (Some 404)))"
    by (rule disjI1)
  have "getPokemonByName fixture_catalog (toLowerCase ''glitch'') = Inl (UpstreamError None)"
    by (simp add: lower fixture_catalog_def)
  then have glitch: "getPokemonByName fixture_catalog (toLowerCase ''glitch'') = Inl (UpstreamError None)
      \<or> (\<not> isl (getPokemonByName fixture_catalog (toLowerCase ''glitch''))
         \<and> getPokemonSpeciesByName fixture_catalog (toLowerCase ''glitch'') = Inl (UpstreamError None))"
    by (rule disjI1)
  have ne: "''missingno'' \<noteq> []" "''glitch'' \<noteq> []" by simp_all
  from upstream_failure_of_single_lookup [OF ne(1) missing]
       upstream_failure_of_single_lookup [OF ne(2) glitch]
  show ?thesis by simp
qed

text \<open>
  C8. \<^verbatim>\<open>GET /pokemon/\<close> with a positive limit and a non-negative offset asks the
  catalog for that page of names and aggregates every name of it. When every
  aggregation succeeds the answer is 200 with the creatures in the order of the
  page; when the page call or a single aggregation is rejected the answer is 500
  and carries no creature at all.
\<close>

theorem bulk_listing_all_or_nothing:
  assumes "0 < l" and "0 \<le> off"
  shows "get_pokemon api (Some l) (Some off) =
     (case getPokemonsList api l off of
        Inl error \<Rightarrow> Response 500 (Failure ''INTERNAL_SERVER_ERROR'' ''Failed to fetch Pokemon list'')
      | Inr results \<Rightarrow>
          if \<forall>n \<in> set results. \<not> isl (getPokemonDetails api n) then
            Response 200 (Creatures (map (\<lambda>n. projr (getPokemonDetails api n)) results))
          else Response 500 (Failure ''INTERNAL_SERVER_ERROR'' ''Failed to fetch Pokemon list''))"
proof (cases "getPokemonsList api l off")
  case (Inl error)
  with assms show ?thesis by (simp add: get_pokemon_def)
next
  case (Inr results)
  show ?thesis
  proof (cases "\<forall>n \<in> set results. \<not> isl (getPokemonDetails api n)")
    case True
    then have "Promise_all (map (getPokemonDetails api) results)
        = Inr (map projr (map (getPokemonDetails api) results))"
      by (intro Promise_all_resolved) simp
    with True Inr assms show ?thesis by (simp add: get_pokemon_def comp_def)
  next
    case False
    then have "isl (Promise_all (map (getPokemonDetails api) results))"
      by (simp add: Promise_all_Inl)
    then obtain e where "Promise_all (map (getPokemonDetails api) results) = Inl e"
      by (cases "Promise_all (map (getPokemonDetails api) results)") auto
    with False Inr assms show ?thesis by (simp add: get_pokemon_def)
  qed
qed

text \<open>
  A page of two names, the second of which the catalog does not know: the first
  creature could be built, and still the answer is the 500 error.
\<close>

theorem bulk_listing_all_or_nothing_witness:
  "\<not> isl (getPokemonDetails (fixture_catalog\<lparr>getPokemonsList := \<lambda>l off. Inr [''pikachu'', ''missingno'']\<rparr>) ''pikachu'')
   \<and> get_pokemon (fixture_catalog\<lparr>getPokemonsList := \<lambda>l off. Inr [''pikachu'', ''missingno'']\<rparr>) (Some 2) (Some 0)
       = Response 500 (Failure ''INTERNAL_SERVER_ERROR'' ''Failed to fetch Pokemon list'')
   \<and> get_pokemon fixture_catalog (Some 2) (Some 0)
       = Response 200 (Creatures [projr (getPokemonDetails fixture_catalog ''pikachu'')])"
proof -
  have pos: "(0::int) < 2" "(0::int) \<le> 0" by simp_all
  from bulk_listing_all_or_nothing [OF pos, of "fixture_catalog\<lparr>getPokemonsList := \<lambda>l off. Inr [''pikachu'', ''missingno'']\<rparr>"]
       bulk_listing_all_or_nothing [OF pos, of fixture_catalog]
  show ?thesis
    by (simp add: fixture_catalog_def getPokemonDetails_def)
qed



section \<open>The collection store\<close>

text \<open>
  C3. An entry is stored under the key of the request (a non-empty text that
  \<^verbatim>\<open>JSON.parse\<close> reads). Then \<^verbatim>\<open>PUT /box/:id\<close> with a body whose \<^verbatim>\<open>level\<close> is 101,
  or with any body that \<open>UpdateBoxEntrySchema\<close> refuses, answers 400 with code
  \<^verbatim>\<open>BAD_REQUEST\<close> and the issues of the \<^verbatim>\<open>ZodError\<close>, and leaves the store as it
  was. The issue list is not empty; for an object body every issue names one
  field of the schema, and for level 101 the list has the issue \<^verbatim>\<open>too_big\<close> at
  \<^verbatim>\<open>level\<close>.
\<close>

theorem update_rejects_invalid_payload:
  assumes "redis_get db (box_key pennkey ident) = Some existingData" and "existingData \<noteq> []"
    and "JSON_parse rt existingData = Some existingEntry"
    and "(\<exists>payload. req_body = JObj payload \<and> map_of payload ''level'' = Some (JNum 101))
         \<or> isl (zod_parse rt UpdateBoxEntrySchema req_body)"
  shows "\<exists>errors.
      put_box_id rt pennkey ident req_body db =
        (Response 400 (Invalid ''BAD_REQUEST'' ''Invalid request body'' errors), db)
      \<and> errors \<noteq> []
      \<and> (\<forall>payload. req_body = JObj payload \<longrightarrow>
            (\<forall>e \<in> set errors. \<exists>k \<in> fst ` set UpdateBoxEntrySchema. issue_path e = [k])
            \<and> (map_of payload ''level'' = Some (JNum 101) \<longrightarrow>
                 \<lparr>issue_code = ''too_big'', issue_path = [''level'']\<rparr> \<in> set errors))"
proof -
  from assms(4) have "isl (zod_parse rt UpdateBoxEntrySchema req_body)"
    using level_101_rejected by blast
  then obtain errors where errors: "zod_parse rt UpdateBoxEntrySchema req_body = Inl errors"
    by (cases "zod_parse rt UpdateBoxEntrySchema req_body") auto
  with assms(1-3) have "put_box_id rt pennkey ident req_body db =
        (Response 400 (Invalid ''BAD_REQUEST'' ''Invalid request body'' errors), db)"
    by (simp add: put_box_id_stored)
  moreover from errors have "errors \<noteq> []" by (rule zod_parse_Inl)
  moreover have "\<exists>k \<in> fst ` set UpdateBoxEntrySchema. issue_path e = [k]"
    if "req_body = JObj payload" "e \<in> set errors" for payload e
    using errors that zod_parse_issue_paths by blast
  moreover have "\<lparr>issue_code = ''too_big'', issue_path = [''level'']\<rparr> \<in> set errors"
    if "req_body = JObj payload" "map_of payload ''level'' = Some (JNum 101)" for payload
    using errors that level_101_too_big by blast
  ultimately show ?thesis by blast
qed

theorem update_rejects_invalid_payload_witness:
  "put_box_id fixture_runtime ''ash'' ''c1'' (JObj [(''level'', JNum 101)]) [(''ash:pokedex:c1'', fixture_text)]
   = (Response 400 (Invalid ''BAD_REQUEST'' ''Invalid request body''
        [\<lparr>issue_code = ''too_big'', issue_path = [''level'']\<rparr>]),
      [(''ash:pokedex:c1'', fixture_text)])"
proof -
  let ?db = "[(''ash:pokedex:c1'', fixture_text)]"
  have stored: "redis_get ?db (box_key ''ash'' ''c1'') = Some fixture_text"
    by (simp add: redis_get_def box_key_def)
  have nonempty: "fixture_text \<noteq> []" by (simp add: fixture_text_def)
  have parsed: "JSON_parse fixture_runtime fixture_text = Some fixture_entry"
    by (simp add: fixture_runtime_def)
  have invalid: "(\<exists>payload. JObj [(''level'', JNum 101)] = JObj payload \<and> map_of payload ''level'' = Some (JNum 101))
      \<or> isl (zod_parse fixture_runtime UpdateBoxEntrySchema (JObj [(''level'', JNum 101)]))"
    by simp
  from update_rejects_invalid_payload [OF stored nonempty parsed invalid]
  obtain errors where "put_box_id fixture_runtime ''ash'' ''c1'' (JObj [(''level'', JNum 101)]) ?db
      = (Response 400 (Invalid ''BAD_REQUEST'' ''Invalid request body'' errors), ?db)"
    by blast
  moreover have "zod_parse fixture_runtime UpdateBoxEntrySchema (JObj [(''level'', JNum 101)])
      = Inl [\<lparr>issue_code = ''too_big'', issue_path = [''level'']\<rparr>]"
    by (simp add: box_defs)
  ultimately show ?thesis
    using put_box_id_stored [OF stored nonempty parsed, of "JObj [(''level'', JNum 101)]"] by simp
qed




text \<open>
  C5, as the code has it. A payload in which a required field is missing, or in
  which a field has the wrong type or fails its check, is refused by
  \<^verbatim>\<open>POST /box/\<close>: the answer is 400 with code \<^verbatim>\<open>BAD_REQUEST\<close> and an issue list that
  names the field, and the store is not written. Fields that the schema does not
  name play no part: two payloads that agree on the five schema fields get the
  same answer.
\<close>

theorem create_rejects_missing_or_mistyped:
  "((k = ''createdAt'' \<and> (\<forall>s. map_of payload k = Some (JStr s) \<longrightarrow> \<not> isDatetime rt s)
     \<or> k = ''level'' \<and> (\<forall>x. map_of payload k = Some (JNum x) \<longrightarrow> \<not> (of_int \<lfloor>x\<rfloor> = x \<and> 1 \<le> x \<and> x \<le> 100))
     \<or> k = ''location'' \<and> (\<forall>s. map_of payload k = Some (JStr s) \<longrightarrow> s = [])
     \<or> k = ''notes'' \<and> (\<exists>v. map_of payload k = Some v \<and> (\<forall>s. v \<noteq> JStr s))
     \<or> k = ''pokemonId'' \<and> (\<forall>x. map_of payload k = Some (JNum x) \<longrightarrow> \<not> (of_int \<lfloor>x\<rfloor> = x \<and> 0 < x)))
    \<longrightarrow> (\<exists>errors. post_box rt pennkey (JObj payload) cuid db =
            (Response 400 (Invalid ''BAD_REQUEST'' ''Invalid request body'' errors), db)
          \<and> (\<exists>e \<in> set errors. issue_path e = [k])))
   \<and> ((\<forall>f \<in> fst ` set InsertBoxEntrySchema. map_of wider f = map_of payload f) \<longrightarrow>
          post_box rt pennkey (JObj wider) cuid db = post_box rt pennkey (JObj payload) cuid db)"
proof (intro conjI impI)
  assume bad_field:
    "k = ''createdAt'' \<and> (\<forall>s. map_of payload k = Some (JStr s) \<longrightarrow> \<not> isDatetime rt s)
     \<or> k = ''level'' \<and> (\<forall>x. map_of payload k = Some (JNum x) \<longrightarrow> \<not> (of_int \<lfloor>x\<rfloor> = x \<and> 1 \<le> x \<and> x \<le> 100))
     \<or> k = ''location'' \<and> (\<forall>s. map_of payload k = Some (JStr s) \<longrightarrow> s = [])
     \<or> k = ''notes'' \<and> (\<exists>v. map_of payload k = Some v \<and> (\<forall>s. v \<noteq> JStr s))
     \<or> k = ''pokemonId'' \<and> (\<forall>x. map_of payload k = Some (JNum x) \<longrightarrow> \<not> (of_int \<lfloor>x\<rfloor> = x \<and> 0 < x))"
  then obtain t where t: "(k, t) \<in> set InsertBoxEntrySchema"
      and bad: "parse_type rt t (map_of payload k) \<noteq> []"
  proof (elim disjE conjE)
    assume "k = ''createdAt''" "\<forall>s. map_of payload k = Some (JStr s) \<longrightarrow> \<not> isDatetime rt s"
    then show ?thesis
      using that [of "ZString [SDatetime]"] parse_type_datetime [of rt "map_of payload k"]
      by (auto simp: InsertBoxEntrySchema_def)
  next
    assume "k = ''level''"
      "\<forall>x. map_of payload k = Some (JNum x) \<longrightarrow> \<not> (of_int \<lfloor>x\<rfloor> = x \<and> 1 \<le> x \<and> x \<le> 100)"
    then show ?thesis
      using that [of "ZNumber [NInt, NMin 1, NMax 100]"] parse_type_level [of rt "map_of payload k"]
      by (auto simp: InsertBoxEntrySchema_def)
  next
    assume "k = ''location''" "\<forall>s. map_of payload k = Some (JStr s) \<longrightarrow> s = []"
    then show ?thesis
      using that [of "ZString [SMin 1]"] parse_type_location [of rt "map_of payload k"]
      by (auto simp: InsertBoxEntrySchema_def)
  next
    assume "k = ''notes''" "\<exists>v. map_of payload k = Some v \<and> (\<forall>s. v \<noteq> JStr s)"
    then show ?thesis
      using that [of "ZOptional (ZString [])"] parse_type_notes [of rt "map_of payload k"]
      by (auto simp: InsertBoxEntrySchema_def)
  next
    assume "k = ''pokemonId''"
      "\<forall>x. map_of payload k = Some (JNum x) \<longrightarrow> \<not> (of_int \<lfloor>x\<rfloor> = x \<and> 0 < x)"
    then show ?thesis
      using that [of "ZNumber [NInt, NPositive]"] parse_type_pokemonId [of rt "map_of payload k"]
      by (auto simp: InsertBoxEntrySchema_def)
  qed
  from zod_parse_rejects_field [OF t bad] obtain errors
    where "zod_parse rt InsertBoxEntrySchema (JObj payload) = Inl errors"
      and "\<exists>e \<in> set errors. issue_path e = [k]"
    by blast
  then show "\<exists>errors. post_box rt pennkey (JObj payload) cuid db =
            (Response 400 (Invalid ''BAD_REQUEST'' ''Invalid request body'' errors), db)
          \<and> (\<exists>e \<in> set errors. issue_path e = [k])"
    using post_box_rejects by blast
next
  assume "\<forall>f \<in> fst ` set InsertBoxEntrySchema. map_of wider f = map_of payload f"
  from zod_parse_cong [OF this]
  show "post_box rt pennkey (JObj wider) cuid db = post_box rt pennkey (JObj payload) cuid db"
    by (simp add: post_box_def)
qed

theorem create_rejects_missing_or_mistyped_witness:
  "post_box fixture_runtime ''ash''
     (JObj [(''createdAt'', JStr ''2025-10-01T12:00:00Z''), (''level'', JStr ''5''), (''pokemonId'', JNum 25)])
     ''c1'' []
   = (Response 400 (Invalid ''BAD_REQUEST'' ''Invalid request body''
        [\<lparr>issue_code = ''invalid_type'', issue_path = [''level'']\<rparr>,
         \<lparr>issue_code = ''invalid_type'', issue_path = [''location'']\<rparr>]), [])
   \<and> post_box fixture_runtime ''ash''
       (JObj [(''createdAt'', JStr ''2025-10-01T12:00:00Z''), (''level'', JStr ''5''),
              (''pokemonId'', JNum 25), (''nickname'', JStr ''Sparky'')]) ''c1'' []
     = post_box fixture_runtime ''ash''
       (JObj [(''createdAt'', JStr ''2025-10-01T12:00:00Z''), (''level'', JStr ''5''), (''pokemonId'', JNum 25)])
       ''c1'' []"
proof -
  let ?payload = "[(''createdAt'', JStr ''2025-10-01T12:00:00Z''), (''level'', JStr ''5''), (''pokemonId'', JNum 25)]"
  let ?wider = "?payload @ [(''nickname'', JStr ''Sparky'')]"
  have same: "\<forall>f \<in> fst ` set InsertBoxEntrySchema. map_of ?wider f = map_of ?payload f"
    by (simp add: InsertBoxEntrySchema_def)
  have mistyped: "''level'' = ''level'' \<and>
      (\<forall>x. map_of ?payload ''level'' = Some (JNum x) \<longrightarrow> \<not> (of_int \<lfloor>x\<rfloor> = x \<and> 1 \<le> x \<and> x \<le> 100))"
    by simp
  from create_rejects_missing_or_mistyped
         [of "''level''" ?payload fixture_runtime "''ash''" "''c1''" "[]" ?wider]
       same mistyped
  have "post_box fixture_runtime ''ash'' (JObj ?wider) ''c1'' []
      = post_box fixture_runtime ''ash'' (JObj ?payload) ''c1'' []"
    by blast
  moreover have "post_box fixture_runtime ''ash'' (JObj ?payload) ''c1'' []
     = (Response 400 (Invalid ''BAD_REQUEST'' ''Invalid request body''
        [\<lparr>issue_code = ''invalid_type'', issue_path = [''level'']\<rparr>,
         \<lparr>issue_code = ''invalid_type'', issue_path = [''location'']\<rparr>]), [])"
    by (simp add: box_defs fixture_runtime_def)
  ultimately show ?thesis by simp
qed

text \<open>
  C5 as stated fails: a payload with the unrecognized field \<^verbatim>\<open>nickname\<close> is not
  refused; the answer is 201 and the entry is stored.
\<close>

theorem create_accepts_extra_field:
  "post_box fixture_runtime ''ash''
     (JObj [(''createdAt'', JStr ''2025-10-01T12:00:00Z''), (''level'', JNum 5),
            (''location'', JStr ''Route 1''), (''pokemonId'', JNum 25),
            (''nickname'', JStr ''Sparky'')]) ''c1'' []
   = (Response 201 (Value fixture_entry), [(''ash:pokedex:c1'', fixture_text)])"
  by (simp add: box_defs fixture_defs)

text \<open>
  C9. An entry is stored under the key of the request. Whatever the body of
  \<^verbatim>\<open>PUT /box/:id\<close> is, with an \<^verbatim>\<open>id\<close> field or other fields outside the schema or
  not: when the handler answers with an updated entry, that entry is what it
  wrote under the same key, its \<^verbatim>\<open>id\<close> is the \<^verbatim>\<open>id\<close> of the entry that was stored,
  and \<^verbatim>\<open>GET /box/:id\<close> returns it afterwards (if \<^verbatim>\<open>JSON.parse\<close> reads back what
  \<^verbatim>\<open>JSON.stringify\<close> wrote); when it answers anything else, the store is as it
  was and \<^verbatim>\<open>GET /box/:id\<close> still returns the entry that was stored.
\<close>

theorem update_keeps_id:
  assumes "redis_get db (box_key pennkey ident) = Some existingData" and "existingData \<noteq> []"
    and "JSON_parse rt existingData = Some existingEntry"
    and "put_box_id rt pennkey ident req_body db = (answer, db')"
  shows "case body answer of
           Value updatedEntry \<Rightarrow>
             db' = redis_set db (box_key pennkey ident) (JSON_stringify rt updatedEntry)
             \<and> map_of (own_properties updatedEntry) ''id'' = map_of (own_properties existingEntry) ''id''
             \<and> (JSON_stringify rt updatedEntry \<noteq> []
                  \<and> JSON_parse rt (JSON_stringify rt updatedEntry) = Some updatedEntry
                \<longrightarrow> get_box_id rt pennkey ident db' = Response 200 (Value updatedEntry))
         | _ \<Rightarrow> db' = db \<and> get_box_id rt pennkey ident db' = Response 200 (Value existingEntry)"
proof -
  note unchanged = get_box_id_stored [OF assms(1-3)]
  show ?thesis
  proof (cases "zod_parse rt UpdateBoxEntrySchema req_body")
    case (Inl errors)
    with put_box_id_stored [OF assms(1-3), of req_body] assms(4)
    have "answer = Response 400 (Invalid ''BAD_REQUEST'' ''Invalid request body'' errors)" and "db' = db"
      by simp_all
    with unchanged show ?thesis by simp
  next
    case (Inr updateData)
    let ?updated = "spread (own_properties existingEntry) updateData"
    show ?thesis
    proof (cases "zod_parse rt BoxEntrySchema (JObj ?updated)")
      case (Inl errors)
      with Inr put_box_id_stored [OF assms(1-3), of req_body] assms(4)
      have "answer = Response 400 (Invalid ''BAD_REQUEST'' ''Invalid request body'' errors)" and "db' = db"
        by simp_all
      with unchanged show ?thesis by simp
    next
      case checked: (Inr checked)
      from Inr obtain payload where "updateData = concat (map (field_output payload) UpdateBoxEntrySchema)"
        by (auto dest: zod_parse_Inr)
      then have "map_of (rev updateData) ''id'' = None"
        by (simp add: field_output_keys_rev UpdateBoxEntrySchema_keys)
      then have same_id: "map_of (own_properties (JObj ?updated)) ''id'' = map_of (own_properties existingEntry) ''id''"
        by (simp add: map_of_spread own_properties_def)
      from Inr checked put_box_id_stored [OF assms(1-3), of req_body] assms(4)
      have answer: "answer = Response 200 (Value (JObj ?updated))"
        and db': "db' = redis_set db (box_key pennkey ident) (JSON_stringify rt (JObj ?updated))"
        by simp_all
      have "get_box_id rt pennkey ident db' = Response 200 (Value (JObj ?updated))"
        if "JSON_stringify rt (JObj ?updated) \<noteq> []"
          and "JSON_parse rt (JSON_stringify rt (JObj ?updated)) = Some (JObj ?updated)"
        unfolding db' using that by (rule get_after_set)
      with same_id answer db' show ?thesis by simp
    qed
  qed
qed

theorem update_keeps_id_witness:
  "put_box_id fixture_runtime ''ash'' ''c1''
     (JObj [(''id'', JStr ''c2''), (''level'', JNum 6), (''shiny'', JBool True)])
     [(''ash:pokedex:c1'', fixture_text)]
   = (Response 200 (Value fixture_updated), [(''ash:pokedex:c1'', fixture_updated_text)])
   \<and> get_box_id fixture_runtime ''ash'' ''c1'' [(''ash:pokedex:c1'', fixture_updated_text)]
     = Response 200 (Value fixture_updated)
   \<and> map_of (own_properties fixture_updated) ''id'' = Some (JStr ''c1'')
   \<and> map_of (own_properties fixture_entry) ''id'' = Some (JStr ''c1'')"
proof -
  let ?db = "[(''ash:pokedex:c1'', fixture_text)]"
  let ?body = "JObj [(''id'', JStr ''c2''), (''level'', JNum 6), (''shiny'', JBool True)]"
  have stored: "redis_get ?db (box_key ''ash'' ''c1'') = Some fixture_text"
    by (simp add: redis_get_def box_key_def)
  have nonempty: "fixture_text \<noteq> []" by (simp add: fixture_text_def)
  have parsed: "JSON_parse fixture_runtime fixture_text = Some fixture_entry"
    by (simp add: fixture_runtime_def)
  have answer: "put_box_id fixture_runtime ''ash'' ''c1'' ?body ?db
      = (Response 200 (Value fixture_updated), [(''ash:pokedex:c1'', fixture_updated_text)])"
    by (simp add: box_defs fixture_defs)
  have codec: "JSON_stringify fixture_runtime fixture_updated \<noteq> []
      \<and> JSON_parse fixture_runtime (JSON_stringify fixture_runtime fixture_updated) = Some fixture_updated"
    by (simp add: fixture_defs)
  from update_keeps_id [OF stored nonempty parsed answer, unfolded response.sel payload.case]
  have "JSON_stringify fixture_runtime fixture_updated \<noteq> []
      \<and> JSON_parse fixture_runtime (JSON_stringify fixture_runtime fixture_updated) = Some fixture_updated
    \<longrightarrow> get_box_id fixture_runtime ''ash'' ''c1'' [(''ash:pokedex:c1'', fixture_updated_text)]
        = Response 200 (Value fixture_updated)"
    by blast
  with codec have "get_box_id fixture_runtime ''ash'' ''c1'' [(''ash:pokedex:c1'', fixture_updated_text)]
        = Response 200 (Value fixture_updated)"
    by blast
  moreover have "map_of (own_properties fixture_updated) ''id'' = Some (JStr ''c1'')"
    and "map_of (own_properties fixture_entry) ''id'' = Some (JStr ''c1'')"
    by (simp_all add: fixture_entry_def fixture_updated_def own_properties_def)
  ultimately show ?thesis using answer by simp
qed

section \<open>Error responses\<close>




section \<open>Identity isolation\<close>

text \<open>
  C1 does not hold of the code. The key of an entry is the identity, the text
  \<^verbatim>\<open>:pokedex:\<close> and the id, joined without escaping, and the identity goes into the
  \<^verbatim>\<open>KEYS\<close> pattern as it is. So the identity \<^verbatim>\<open>a\<close> reads with the id
  \<^verbatim>\<open>pokedex:c1\<close> the entry that the identity \<^verbatim>\<open>a:pokedex\<close> created with the id
  \<^verbatim>\<open>c1\<close>, and the identity \<^verbatim>\<open>*\<close> lists the id of an entry of \<^verbatim>\<open>ash\<close> and deletes
  the entry with its \<^verbatim>\<open>DELETE /box/\<close>.
\<close>

theorem identity_isolation_violated:
  "get_box_id fixture_runtime ''a'' ''pokedex:c1''
     (snd (post_box fixture_runtime ''a:pokedex''
        (JObj [(''createdAt'', JStr ''2025-10-01T12:00:00Z''), (''level'', JNum 5),
               (''location'', JStr ''Route 1''), (''pokemonId'', JNum 25)]) ''c1'' []))
     = Response 200 (Value fixture_entry)
   \<and> get_box ''*''
     (snd (post_box fixture_runtime ''ash''
        (JObj [(''createdAt'', JStr ''2025-10-01T12:00:00Z''), (''level'', JNum 5),
               (''location'', JStr ''Route 1''), (''pokemonId'', JNum 25)]) ''c1'' []))
     = Response 200 (Value (JArr [JStr ''c1'']))
   \<and> delete_box ''*''
     (snd (post_box fixture_runtime ''ash''
        (JObj [(''createdAt'', JStr ''2025-10-01T12:00:00Z''), (''level'', JNum 5),
               (''location'', JStr ''Route 1''), (''pokemonId'', JNum 25)]) ''c1'' []))
     = (Response 204 NoBody, [])"
  by (simp add: box_defs fixture_defs)

text \<open>
  What the key scheme does guarantee: for two different plain identities, no
  request of the first changes the entries of the second, and every answer to the
  second depends on its own entries only. The pattern of a plain identity matches
  exactly the keys that begin with the identity and \<^verbatim>\<open>:pokedex:\<close>, and such a key
  has one plain owner.
\<close>

lemma stringmatch_star: "stringmatch ''*'' s"
  by (induction s) simp_all

lemma stringmatch_literal:
  assumes "c \<notin> {CHR ''*'', CHR ''?'', CHR ''['', CHR 0x5C}"
  shows "stringmatch (c # p) s = (case s of [] \<Rightarrow> False | x # s' \<Rightarrow> x = c \<and> stringmatch p s')"
  using assms by (cases s) auto

lemma stringmatch_literals:
  assumes "\<forall>c \<in> set lit. c \<notin> {CHR ''*'', CHR ''?'', CHR ''['', CHR 0x5C}"
  shows "stringmatch (lit @ p) s = (prefix lit s \<and> stringmatch p (drop (length lit) s))"
  using assms
proof (induction lit arbitrary: s)
  case Nil
  show ?case by simp
next
  case (Cons c lit)
  then have c: "c \<notin> {CHR ''*'', CHR ''?'', CHR ''['', CHR 0x5C}" by simp
  from Cons show ?case
    by (cases s) (auto simp add: stringmatch_literal [OF c] simp del: stringmatch.simps)
qed

lemma stringmatch_box_pattern:
  assumes "plain pennkey"
  shows "stringmatch (box_pattern pennkey) key = prefix (pennkey @ '':pokedex:'') key"
proof -
  from assms have "\<forall>c \<in> set (pennkey @ '':pokedex:''). c \<notin> {CHR ''*'', CHR ''?'', CHR ''['', CHR 0x5C}"
    by (auto simp: plain_def)
  from stringmatch_literals [OF this, of "''*''" key] show ?thesis
    by (simp add: box_pattern_def stringmatch_star del: stringmatch.simps)
qed

lemma plain_prefix_unique:
  assumes "plain p1" and "plain p2"
    and "prefix (p1 @ '':pokedex:'') key" and "prefix (p2 @ '':pokedex:'') key"
  shows "p1 = p2"
proof -
  from assms(3) obtain r1 where "key = p1 @ CHR '':'' # r1"
    by (auto simp: prefix_def)
  with assms(1) have "takeWhile (\<lambda>c. c \<noteq> CHR '':'') key = p1"
    by (simp add: plain_def takeWhile_tail)
  moreover from assms(4) obtain r2 where "key = p2 @ CHR '':'' # r2"
    by (auto simp: prefix_def)
  with assms(2) have "takeWhile (\<lambda>c. c \<noteq> CHR '':'') key = p2"
    by (simp add: plain_def takeWhile_tail)
  ultimately show ?thesis by simp
qed

lemma box_key_prefix: "prefix (pennkey @ '':pokedex:'') (box_key pennkey ident)"
  by (simp add: box_key_def prefix_def)

lemma foreign_key:
  assumes "plain p1" and "plain p2" and "p1 \<noteq> p2"
  shows "\<not> prefix (p2 @ '':pokedex:'') (box_key p1 ident)"
  using assms plain_prefix_unique box_key_prefix by blast

lemma map_of_filter_key:
  "P k \<Longrightarrow> map_of (filter (\<lambda>kv. P (fst kv)) db) k = map_of db k"
  by (induction db) auto

lemma filter_update_other:
  "\<not> P k \<Longrightarrow> filter (\<lambda>kv. P (fst kv)) (AList.update k v db) = filter (\<lambda>kv. P (fst kv)) db"
  by (induction db) auto

lemma filter_delete_other:
  "\<not> P k \<Longrightarrow> filter (\<lambda>kv. P (fst kv)) (AList.delete k db) = filter (\<lambda>kv. P (fst kv)) db"
  by (induction db) auto

lemma filter_deletes_other:
  "\<forall>k \<in> set ks. \<not> P k \<Longrightarrow>
     filter (\<lambda>kv. P (fst kv)) (fold AList.delete ks db) = filter (\<lambda>kv. P (fst kv)) db"
  by (induction ks arbitrary: db) (simp_all add: filter_delete_other)

lemma redis_keys_entries_of:
  assumes "plain pennkey"
  shows "redis_keys (entries_of pennkey db) (box_pattern pennkey) = redis_keys db (box_pattern pennkey)"
  by (induction db) (simp_all add: redis_keys_def entries_of_def stringmatch_box_pattern [OF assms] del: stringmatch.simps)

theorem plain_identities_are_isolated:
  assumes "plain p1" and "plain p2" and "p1 \<noteq> p2"
  shows "entries_of p2 (snd (post_box rt p1 req_body cuid db)) = entries_of p2 db"
    and "entries_of p2 (snd (put_box_id rt p1 ident req_body db)) = entries_of p2 db"
    and "entries_of p2 (snd (delete_box_id p1 ident db)) = entries_of p2 db"
    and "entries_of p2 (snd (delete_box p1 db)) = entries_of p2 db"
    and "get_box p2 (entries_of p2 db) = get_box p2 db"
    and "get_box_id rt p2 ident (entries_of p2 db) = get_box_id rt p2 ident db"
    and "fst (put_box_id rt p2 ident req_body (entries_of p2 db)) = fst (put_box_id rt p2 ident req_body db)"
    and "fst (delete_box_id p2 ident (entries_of p2 db)) = fst (delete_box_id p2 ident db)"
proof -
  note foreign = foreign_key [OF assms]
  show "entries_of p2 (snd (post_box rt p1 req_body cuid db)) = entries_of p2 db"
    using foreign [of cuid]
    by (simp add: post_box_def Let_def redis_set_def entries_of_def filter_update_other split: sum.splits)
  show "entries_of p2 (snd (put_box_id rt p1 ident req_body db)) = entries_of p2 db"
    using foreign [of ident]
    by (simp add: put_box_id_def Let_def redis_set_def entries_of_def filter_update_other
        split: sum.splits option.splits)
  show "entries_of p2 (snd (delete_box_id p1 ident db)) = entries_of p2 db"
    using foreign [of ident]
    by (simp add: delete_box_id_def Let_def redis_del_def entries_of_def filter_delete_other)
  have "\<forall>k \<in> set (redis_keys db (box_pattern p1)). \<not> prefix (p2 @ '':pokedex:'') k"
    using assms plain_prefix_unique
    by (auto simp: redis_keys_def stringmatch_box_pattern simp del: stringmatch.simps)
  then show "entries_of p2 (snd (delete_box p1 db)) = entries_of p2 db"
    by (simp add: delete_box_def Let_def redis_del_def entries_of_def filter_deletes_other)
  show "get_box p2 (entries_of p2 db) = get_box p2 db"
    by (simp add: get_box_def redis_keys_entries_of [OF assms(2)])
  have own: "map_of (entries_of p2 db) (box_key p2 ident) = map_of db (box_key p2 ident)"
    unfolding entries_of_def
    using map_of_filter_key [of "\<lambda>k. prefix (p2 @ '':pokedex:'') k" "box_key p2 ident" db] box_key_prefix
    by simp
  show "get_box_id rt p2 ident (entries_of p2 db) = get_box_id rt p2 ident db"
    by (simp add: get_box_id_def redis_get_def own)
  show "fst (put_box_id rt p2 ident req_body (entries_of p2 db)) = fst (put_box_id rt p2 ident req_body db)"
    by (simp add: put_box_id_def redis_get_def own Let_def split: sum.splits option.splits)
  show "fst (delete_box_id p2 ident (entries_of p2 db)) = fst (delete_box_id p2 ident db)"
    by (simp add: delete_box_id_def redis_exists_def own Let_def)
qed

end
